theory Spec2Isabelle
  imports Main "HOL-Library.Word"
begin

chapter \<open>zap: the pooled buffer and the field constructors\<close>

text \<open>
  The development embeds two parts of the logging library:
  \<^item> the byte buffer, which exists in two variants: \<^verbatim>\<open>src/buffer/buffer.go\<close> (empty-input
    guards, \<^verbatim>\<open>EnsureCapacity\<close>, a trimming \<^verbatim>\<open>Free\<close>) and \<^verbatim>\<open>src/unnamed/part_000\<close> (the
    hand-written \<^verbatim>\<open>AppendString\<close>, a plain \<^verbatim>\<open>Free\<close>).  Functions of the first variant
    keep their Go names, functions of the second carry the suffix \<open>_u\<close>;
  \<^item> the field constructors and the dispatcher \<^verbatim>\<open>Any\<close> of \<^verbatim>\<open>src/field.go\<close>.
\<close>

section \<open>The buffer\<close>

subsection \<open>Byte slices\<close>

text \<open>
  A Go \<^verbatim>\<open>[]byte\<close> is a window of \<^verbatim>\<open>len\<close> cells on a backing array that offers
  \<^verbatim>\<open>cap\<close> cells.  The slice \<^verbatim>\<open>b.bs\<close> of a buffer always starts at the first cell
  of its array, so the buffer is the array's cells (\<open>arr\<close>, whose length is the
  capacity) and the length.  A byte is a \<^typ>\<open>char\<close> (eight bits), a Go string
  is a \<^typ>\<open>string\<close>.  The field \<open>allocs\<close> is a ghost counter of the arrays allocated
  for the buffer (by \<^verbatim>\<open>make\<close> or by the growth of the builtin \<^verbatim>\<open>append\<close>); no
  function reads it.

  Lengths and capacities are Go \<^verbatim>\<open>int\<close>s.  They are bounded by the size of the
  address space, far below the point where \<^verbatim>\<open>cap * 2\<close> or \<^verbatim>\<open>len + needed\<close> could
  wrap, so they are natural numbers here.
\<close>

record Buffer =
  arr :: string
  len :: nat
  allocs :: nat

definition buf_inv :: "Buffer \<Rightarrow> bool" where
  "buf_inv b = (len b \<le> length (arr b))"

definition c_size :: nat where
  "c_size = 1024"

definition c_minSize :: nat where
  "c_minSize = 64"

definition c_maxExcessCap :: nat where
  "c_maxExcessCap = 4"

text \<open>\<^verbatim>\<open>make([]byte, l, c)\<close>: a fresh array of \<open>c\<close> zero bytes.\<close>

definition go_make :: "nat \<Rightarrow> nat \<Rightarrow> string" where
  "go_make l c = replicate c (CHR 0x00)"

text \<open>
  \<^verbatim>\<open>copy(dst, src)\<close> where \<open>dst\<close> is the window of \<open>dl\<close> cells that starts at cell
  \<open>off\<close> of the array \<open>a\<close>: the first \<open>min dl (length src)\<close> bytes of \<open>src\<close> are
  written there, every other cell keeps its value.
\<close>

definition copy_at :: "string \<Rightarrow> nat \<Rightarrow> nat \<Rightarrow> string \<Rightarrow> string" where
  "copy_at a off dl src =
     (let n = min dl (length src) in take off a @ take n src @ drop (off + n) a)"

text \<open>
  The builtin \<^verbatim>\<open>append(b.bs, v...)\<close>.  When the result fits the capacity the bytes
  are written behind the content, in the same array.  Otherwise the runtime
  allocates a larger array and copies; how large is the runtime's choice, taken
  here as the parameter \<open>g\<close> (old capacity and needed length to new capacity), of
  which Go only promises that the result fits.
\<close>

definition go_append :: "(nat \<Rightarrow> nat \<Rightarrow> nat) \<Rightarrow> Buffer \<Rightarrow> string \<Rightarrow> Buffer" where
  "go_append g b v =
     (let l = len b; n = l + length v in
      if n \<le> length (arr b)
      then b\<lparr>arr := copy_at (arr b) l (length v) v, len := n\<rparr>
      else let c = max n (g (length (arr b)) n) in
           \<lparr>arr = copy_at (copy_at (go_make n c) 0 n (take l (arr b))) l (length v) v,
            len = n, allocs = Suc (allocs b)\<rparr>)"

subsection \<open>Observers and \<^verbatim>\<open>Reset\<close> (the same in both variants)\<close>

definition Len :: "Buffer \<Rightarrow> nat" where
  "Len b = len b"

definition Cap :: "Buffer \<Rightarrow> nat" where
  "Cap b = length (arr b)"

definition Bytes :: "Buffer \<Rightarrow> string" where
  "Bytes b = take (len b) (arr b)"

definition Reset :: "Buffer \<Rightarrow> Buffer" where
  "Reset b = b\<lparr>len := 0\<rparr>"

subsection \<open>The pool\<close>

text \<open>
  Modelled from the spec: the type \<^verbatim>\<open>Pool\<close> and its method \<^verbatim>\<open>put\<close> are not among the
  sources.  The spec describes the pool as a homogeneous store of reusable buffer
  instances to which a release returns the instance; it is a list of buffers here,
  and \<open>put\<close> adds one.
\<close>

type_synonym Pool = "Buffer list"

definition put :: "Buffer \<Rightarrow> Pool \<Rightarrow> Pool" where
  "put b pool = b # pool"

subsection \<open>\<^verbatim>\<open>src/buffer/buffer.go\<close>\<close>

definition AppendByte :: "(nat \<Rightarrow> nat \<Rightarrow> nat) \<Rightarrow> char \<Rightarrow> Buffer \<Rightarrow> Buffer" where
  "AppendByte g v b = go_append g b [v]"

definition AppendBytes :: "(nat \<Rightarrow> nat \<Rightarrow> nat) \<Rightarrow> string \<Rightarrow> Buffer \<Rightarrow> Buffer" where
  "AppendBytes g v b = (if length v = 0 then b else go_append g b v)"

definition AppendString :: "(nat \<Rightarrow> nat \<Rightarrow> nat) \<Rightarrow> string \<Rightarrow> Buffer \<Rightarrow> Buffer" where
  "AppendString g s b = (if length s = 0 then b else go_append g b s)"

definition EnsureCapacity :: "nat \<Rightarrow> Buffer \<Rightarrow> Buffer" where
  "EnsureCapacity capacity b =
     (if Cap b < capacity
      then let newBs = go_make (len b) capacity;
               newBs = copy_at newBs 0 (len b) (Bytes b)
           in \<lparr>arr = newBs, len = len b, allocs = Suc (allocs b)\<rparr>
      else b)"

text \<open>
  \<^verbatim>\<open>Free\<close> works on the buffer and then hands it to \<^verbatim>\<open>b.pool.put\<close>; the result is the
  buffer as it was handed over, and the pool.
\<close>

definition Free :: "Buffer \<Rightarrow> Pool \<Rightarrow> Buffer \<times> Pool" where
  "Free b pool =
     (let currentCap = Cap b;
          b = (if currentCap > c_size * c_maxExcessCap
               then b\<lparr>arr := go_make 0 c_size, len := 0, allocs := Suc (allocs b)\<rparr>
               else if Len b > 0 then Reset b
               else b)
      in (b, put b pool))"

subsection \<open>\<^verbatim>\<open>src/unnamed/part_000\<close>\<close>

definition AppendByte_u :: "(nat \<Rightarrow> nat \<Rightarrow> nat) \<Rightarrow> char \<Rightarrow> Buffer \<Rightarrow> Buffer" where
  "AppendByte_u g v b = go_append g b [v]"

definition AppendBytes_u :: "(nat \<Rightarrow> nat \<Rightarrow> nat) \<Rightarrow> string \<Rightarrow> Buffer \<Rightarrow> Buffer" where
  "AppendBytes_u g v b = go_append g b v"

text \<open>
  The hand-written \<^verbatim>\<open>AppendString\<close>: nothing for the empty string; a slice
  extension and one \<^verbatim>\<open>copy\<close> when the free capacity suffices; otherwise a new
  array of the computed capacity, filled by two copies.
\<close>

definition AppendString_u :: "string \<Rightarrow> Buffer \<Rightarrow> Buffer" where
  "AppendString_u s b =
     (if length s = 0 then b
      else
        let l = len b; needed = length s; capLeft = Cap b - l in
        if needed = 0 then b
        else if capLeft \<ge> needed
        then b\<lparr>arr := copy_at (arr b) l needed s, len := l + needed\<rparr>
        else
          let newCap = Cap b * 2;
              newCap = (if newCap < l + needed then l + needed else newCap);
              newCap = (if newCap < c_size then c_size else newCap);
              newBs = go_make (l + needed) newCap;
              newBs = copy_at newBs 0 (l + needed) (Bytes b);
              newBs = copy_at newBs l needed s
          in \<lparr>arr = newBs, len = l + needed, allocs = Suc (allocs b)\<rparr>)"

definition Free_u :: "Buffer \<Rightarrow> Pool \<Rightarrow> Buffer \<times> Pool" where
  "Free_u b pool = (b, put b pool)"

subsection \<open>Sequences of appends\<close>

datatype append_call =
    CallAppendByte char
  | CallAppendBytes string
  | CallAppendString string

fun appended :: "append_call \<Rightarrow> string" where
  "appended (CallAppendByte v) = [v]"
| "appended (CallAppendBytes v) = v"
| "appended (CallAppendString s) = s"

fun do_call :: "(nat \<Rightarrow> nat \<Rightarrow> nat) \<Rightarrow> Buffer \<Rightarrow> append_call \<Rightarrow> Buffer" where
  "do_call g b (CallAppendByte v) = AppendByte g v b"
| "do_call g b (CallAppendBytes v) = AppendBytes g v b"
| "do_call g b (CallAppendString s) = AppendString g s b"

fun do_call_u :: "(nat \<Rightarrow> nat \<Rightarrow> nat) \<Rightarrow> Buffer \<Rightarrow> append_call \<Rightarrow> Buffer" where
  "do_call_u g b (CallAppendByte v) = AppendByte_u g v b"
| "do_call_u g b (CallAppendBytes v) = AppendBytes_u g v b"
| "do_call_u g b (CallAppendString s) = AppendString_u s b"

definition run :: "(nat \<Rightarrow> nat \<Rightarrow> nat) \<Rightarrow> append_call list \<Rightarrow> Buffer \<Rightarrow> Buffer" where
  "run g cs b = foldl (do_call g) b cs"

definition run_u :: "(nat \<Rightarrow> nat \<Rightarrow> nat) \<Rightarrow> append_call list \<Rightarrow> Buffer \<Rightarrow> Buffer" where
  "run_u g cs b = foldl (do_call_u g) b cs"

text \<open>A growth policy for the evaluation of concrete runs: double the capacity.\<close>

definition doubling :: "nat \<Rightarrow> nat \<Rightarrow> nat" where
  "doubling c n = 2 * c"

section \<open>Fields\<close>

subsection \<open>Go values\<close>

text \<open>
  A sized integer is a word of its width; \<^verbatim>\<open>int\<close>, \<^verbatim>\<open>uint\<close> and \<^verbatim>\<open>uintptr\<close> are the
  64-bit words of a 64-bit platform, and \<^verbatim>\<open>time.Duration\<close> is an \<^verbatim>\<open>int64\<close>.  A
  conversion \<^verbatim>\<open>int64(x)\<close> is \<open>scast\<close> from a signed type (sign extension) and \<open>ucast\<close>
  from an unsigned one (zero extension, and the same bits at width 64).

  A floating-point number is represented by its IEEE 754 bit pattern, which is what
  \<^verbatim>\<open>math.Float64bits\<close> and \<^verbatim>\<open>math.Float32bits\<close> return; a complex number by the two bit
  patterns of its parts.  No function of this development computes with them.

  A pointer is an \<open>option\<close>: \<open>None\<close> is nil, \<open>Some v\<close> points to \<open>v\<close>.  A slice or map
  that is only passed on is a list or a partial function.
\<close>

text \<open>
  Modelled from the spec: \<^verbatim>\<open>zapcore.FieldType\<close> is not among the sources.  The
  discriminants are the ones \<^verbatim>\<open>field.go\<close> names; they are pairwise different.
\<close>

datatype FieldType =
    ObjectMarshalerType | BinaryType | BoolType | ByteStringType
  | Complex128Type | Complex64Type | DurationType | Float64Type | Float32Type
  | Int64Type | Int32Type | Int16Type | Int8Type | StringType
  | TimeType | TimeFullType
  | Uint64Type | Uint32Type | Uint16Type | Uint8Type | UintptrType
  | ReflectType | NamespaceType | StringerType | SkipType | InlineMarshalerType

text \<open>
  The four interfaces that the type switch of \<^verbatim>\<open>Any\<close> tests: \<^verbatim>\<open>zapcore.ObjectMarshaler\<close>,
  \<^verbatim>\<open>zapcore.ArrayMarshaler\<close>, \<^verbatim>\<open>error\<close> and \<^verbatim>\<open>fmt.Stringer\<close>.
\<close>

datatype capability = ObjectMarshaler | ArrayMarshaler | error_iface | fmt_Stringer

text \<open>
  A \<^verbatim>\<open>time.Time\<close> of the standard library is an instant and a location.  The instant
  is the number of nanoseconds since the Unix epoch, an unbounded integer (the type
  reaches far beyond what 64 bits of nanoseconds hold); the location is known by its
  name.
\<close>

datatype Location = Location string

datatype time_Time = MkTime (nanos: int) (location: Location)

text \<open>
  Modelled from the spec: the struct \<^verbatim>\<open>zapcore.Field\<close> is not among the sources.  It has
  a key, a discriminant and three payload slots: a signed 64-bit integer, a string and a
  reference of arbitrary type (\<^verbatim>\<open>Key\<close>, \<^verbatim>\<open>Type\<close>, \<^verbatim>\<open>Integer\<close>, \<^verbatim>\<open>String\<close>, \<^verbatim>\<open>Interface\<close> in
  \<^verbatim>\<open>field.go\<close>; the string slot is \<open>String_slot\<close> here because \<open>String\<close> is a
  constructor function).  A composite literal leaves the slots it does not name at
  their zero values.

  A \<open>goval\<close> is a value of type \<^verbatim>\<open>interface{}\<close>: \<open>VNil\<close> is the nil interface, every other
  constructor is a dynamic type with its value.  There is one constructor for each type
  that the switch of \<^verbatim>\<open>Any\<close> names, one for \<^verbatim>\<open>*time.Location\<close>, one for each marshaler
  type that \<^verbatim>\<open>field.go\<close> declares, and \<open>VOther\<close> for a value of any other type, known by
  the type's name and by which of the four interfaces its method set implements.
\<close>

datatype Field =
  MkField (Key: string) (Type: FieldType) (Integer: "64 word") (String_slot: string)
    (Interface: goval)
and goval =
    VNil
  | VFields "Field list"
  | VBool bool | VBoolp "bool option" | VBools "bool list"
  | VComplex128 "64 word \<times> 64 word" | VComplex128p "(64 word \<times> 64 word) option"
  | VComplex128s "(64 word \<times> 64 word) list"
  | VComplex64 "32 word \<times> 32 word" | VComplex64p "(32 word \<times> 32 word) option"
  | VComplex64s "(32 word \<times> 32 word) list"
  | VFloat64 "64 word" | VFloat64p "64 word option" | VFloat64s "64 word list"
  | VFloat32 "32 word" | VFloat32p "32 word option" | VFloat32s "32 word list"
  | VInt "64 word" | VIntp "64 word option" | VInts "64 word list"
  | VInt64 "64 word" | VInt64p "64 word option" | VInt64s "64 word list"
  | VInt32 "32 word" | VInt32p "32 word option" | VInt32s "32 word list"
  | VInt16 "16 word" | VInt16p "16 word option" | VInt16s "16 word list"
  | VInt8 "8 word" | VInt8p "8 word option" | VInt8s "8 word list"
  | VString string | VStringp "string option" | VStrings "string list"
  | VUint "64 word" | VUintp "64 word option" | VUints "64 word list"
  | VUint64 "64 word" | VUint64p "64 word option" | VUint64s "64 word list"
  | VUint32 "32 word" | VUint32p "32 word option" | VUint32s "32 word list"
  | VUint16 "16 word" | VUint16p "16 word option" | VUint16s "16 word list"
  | VUint8 "8 word" | VUint8p "8 word option" | VBytes "8 word list"
  | VUintptr "64 word" | VUintptrp "64 word option" | VUintptrs "64 word list"
  | VTime time_Time | VTimep "time_Time option" | VTimes "time_Time list"
  | VDuration "64 word" | VDurationp "64 word option" | VDurations "64 word list"
  | VErrors "goval list"
  | VMapStringString "string \<Rightarrow> string option"
  | VMapStringInterface "string \<Rightarrow> goval option"
  | VLocation Location
  | VdictObject "Field list"
  | VmapStringStringObject "string \<Rightarrow> string option"
  | VmapStringInterfaceObject "string \<Rightarrow> goval option"
  | VOther string "capability set"

text \<open>
  Which of the four interfaces the dynamic type of a value implements.  The builtin
  types, and slices, maps and pointers of them, have no methods.  \<^verbatim>\<open>time.Time\<close> and
  \<^verbatim>\<open>time.Duration\<close> have a \<^verbatim>\<open>String\<close> method, which their pointer types inherit, and so has
  \<^verbatim>\<open>*time.Location\<close>; none of them has \<^verbatim>\<open>Error\<close>, \<^verbatim>\<open>MarshalLogObject\<close> or
  \<^verbatim>\<open>MarshalLogArray\<close>.  \<^verbatim>\<open>dictObject\<close>, \<^verbatim>\<open>mapStringStringObject\<close> and
  \<^verbatim>\<open>mapStringInterfaceObject\<close> are declared in \<^verbatim>\<open>field.go\<close> with \<^verbatim>\<open>MarshalLogObject\<close> as
  their only method.  The nil interface has no dynamic type.
\<close>

definition methodSet :: "goval \<Rightarrow> capability set" where
  "methodSet v =
     (case v of
        VTime _ \<Rightarrow> {fmt_Stringer}
      | VTimep _ \<Rightarrow> {fmt_Stringer}
      | VDuration _ \<Rightarrow> {fmt_Stringer}
      | VDurationp _ \<Rightarrow> {fmt_Stringer}
      | VLocation _ \<Rightarrow> {fmt_Stringer}
      | VdictObject _ \<Rightarrow> {ObjectMarshaler}
      | VmapStringStringObject _ \<Rightarrow> {ObjectMarshaler}
      | VmapStringInterfaceObject _ \<Rightarrow> {ObjectMarshaler}
      | VOther _ caps \<Rightarrow> caps
      | _ \<Rightarrow> {})"

subsection \<open>The standard library's \<^verbatim>\<open>time\<close>\<close>

definition MinInt64 :: int where
  "MinInt64 = - (2 ^ 63)"

definition MaxInt64 :: int where
  "MaxInt64 = 2 ^ 63 - 1"

text \<open>
  \<^verbatim>\<open>time.Unix(sec, nsec)\<close> is the instant \<open>nsec\<close> nanoseconds after second \<open>sec\<close> of the
  epoch, in the local time zone.  \<^verbatim>\<open>Before\<close> and \<^verbatim>\<open>After\<close> compare instants.
  \<^verbatim>\<open>UnixNano\<close> computes the nanoseconds in \<^verbatim>\<open>int64\<close> arithmetic: the instant modulo
  \<open>2 ^ 64\<close>.
\<close>

definition Unix :: "int \<Rightarrow> int \<Rightarrow> time_Time" where
  "Unix sec nsec = MkTime (sec * 1000000000 + nsec) (Location ''Local'')"

definition Before :: "time_Time \<Rightarrow> time_Time \<Rightarrow> bool" where
  "Before t u = (nanos t < nanos u)"

definition After :: "time_Time \<Rightarrow> time_Time \<Rightarrow> bool" where
  "After t u = (nanos t > nanos u)"

definition UnixNano :: "time_Time \<Rightarrow> 64 word" where
  "UnixNano t = word_of_int (nanos t)"

subsection \<open>\<^verbatim>\<open>src/field.go\<close>: the constructors\<close>

definition minTimeInt64 :: time_Time where
  "minTimeInt64 = Unix 0 MinInt64"

definition maxTimeInt64 :: time_Time where
  "maxTimeInt64 = Unix 0 MaxInt64"

definition Skip :: Field where
  "Skip = MkField [] SkipType 0 [] VNil"

definition nilReflectField :: Field where
  "nilReflectField = MkField [] ReflectType 0 [] VNil"

text \<open>The assignment \<^verbatim>\<open>f.Key = key\<close> on a struct value.\<close>

definition set_Key :: "string \<Rightarrow> Field \<Rightarrow> Field" where
  "set_Key key f = (case f of MkField k t i s v \<Rightarrow> MkField key t i s v)"

definition nilField :: "string \<Rightarrow> Field" where
  "nilField key = (let f = nilReflectField; f = set_Key key f in f)"

definition Binary :: "string \<Rightarrow> 8 word list \<Rightarrow> Field" where
  "Binary key val = MkField key BinaryType 0 [] (VBytes val)"

definition Bool :: "string \<Rightarrow> bool \<Rightarrow> Field" where
  "Bool key val = (let ival = (if val then 1 else 0) in MkField key BoolType ival [] VNil)"

definition boolToInt64 :: "bool \<Rightarrow> 64 word" where
  "boolToInt64 v = (if v then 1 else 0)"

definition Boolp :: "string \<Rightarrow> bool option \<Rightarrow> Field" where
  "Boolp key val =
     (case val of None \<Rightarrow> nilField key
      | Some v \<Rightarrow> MkField key BoolType (boolToInt64 v) [] VNil)"

definition ByteString :: "string \<Rightarrow> 8 word list \<Rightarrow> Field" where
  "ByteString key val = MkField key ByteStringType 0 [] (VBytes val)"

definition Complex128 :: "string \<Rightarrow> 64 word \<times> 64 word \<Rightarrow> Field" where
  "Complex128 key val = MkField key Complex128Type 0 [] (VComplex128 val)"

definition Complex128p :: "string \<Rightarrow> (64 word \<times> 64 word) option \<Rightarrow> Field" where
  "Complex128p key val =
     (case val of None \<Rightarrow> nilField key
      | Some v \<Rightarrow> MkField key Complex128Type 0 [] (VComplex128 v))"

definition Complex64 :: "string \<Rightarrow> 32 word \<times> 32 word \<Rightarrow> Field" where
  "Complex64 key val = MkField key Complex64Type 0 [] (VComplex64 val)"

definition Complex64p :: "string \<Rightarrow> (32 word \<times> 32 word) option \<Rightarrow> Field" where
  "Complex64p key val =
     (case val of None \<Rightarrow> nilField key
      | Some v \<Rightarrow> MkField key Complex64Type 0 [] (VComplex64 v))"

definition Float64 :: "string \<Rightarrow> 64 word \<Rightarrow> Field" where
  "Float64 key val = MkField key Float64Type (ucast val) [] VNil"

definition Float64p :: "string \<Rightarrow> 64 word option \<Rightarrow> Field" where
  "Float64p key val =
     (case val of None \<Rightarrow> nilField key
      | Some v \<Rightarrow> MkField key Float64Type (ucast v) [] VNil)"

definition Float32 :: "string \<Rightarrow> 32 word \<Rightarrow> Field" where
  "Float32 key val = MkField key Float32Type (ucast val) [] VNil"

definition Float32p :: "string \<Rightarrow> 32 word option \<Rightarrow> Field" where
  "Float32p key val =
     (case val of None \<Rightarrow> nilField key
      | Some v \<Rightarrow> MkField key Float32Type (ucast v) [] VNil)"

definition Int64 :: "string \<Rightarrow> 64 word \<Rightarrow> Field" where
  "Int64 key val = MkField key Int64Type val [] VNil"

definition Int_field :: "string \<Rightarrow> 64 word \<Rightarrow> Field" where
  "Int_field key val = Int64 key (scast val)"

definition Intp :: "string \<Rightarrow> 64 word option \<Rightarrow> Field" where
  "Intp key val =
     (case val of None \<Rightarrow> nilField key
      | Some v \<Rightarrow> MkField key Int64Type (scast v) [] VNil)"

definition Int64p :: "string \<Rightarrow> 64 word option \<Rightarrow> Field" where
  "Int64p key val =
     (case val of None \<Rightarrow> nilField key
      | Some v \<Rightarrow> MkField key Int64Type v [] VNil)"

definition Int32 :: "string \<Rightarrow> 32 word \<Rightarrow> Field" where
  "Int32 key val = MkField key Int32Type (scast val) [] VNil"

definition Int32p :: "string \<Rightarrow> 32 word option \<Rightarrow> Field" where
  "Int32p key val =
     (case val of None \<Rightarrow> nilField key
      | Some v \<Rightarrow> MkField key Int32Type (scast v) [] VNil)"

definition Int16 :: "string \<Rightarrow> 16 word \<Rightarrow> Field" where
  "Int16 key val = MkField key Int16Type (scast val) [] VNil"

definition Int16p :: "string \<Rightarrow> 16 word option \<Rightarrow> Field" where
  "Int16p key val =
     (case val of None \<Rightarrow> nilField key
      | Some v \<Rightarrow> MkField key Int16Type (scast v) [] VNil)"

definition Int8 :: "string \<Rightarrow> 8 word \<Rightarrow> Field" where
  "Int8 key val = MkField key Int8Type (scast val) [] VNil"

definition Int8p :: "string \<Rightarrow> 8 word option \<Rightarrow> Field" where
  "Int8p key val =
     (case val of None \<Rightarrow> nilField key
      | Some v \<Rightarrow> MkField key Int8Type (scast v) [] VNil)"

definition String :: "string \<Rightarrow> string \<Rightarrow> Field" where
  "String key val = MkField key StringType 0 val VNil"

definition Stringp :: "string \<Rightarrow> string option \<Rightarrow> Field" where
  "Stringp key val =
     (case val of None \<Rightarrow> nilField key
      | Some v \<Rightarrow> MkField key StringType 0 v VNil)"

definition Uint64 :: "string \<Rightarrow> 64 word \<Rightarrow> Field" where
  "Uint64 key val = MkField key Uint64Type (ucast val) [] VNil"

definition Uint :: "string \<Rightarrow> 64 word \<Rightarrow> Field" where
  "Uint key val = Uint64 key (ucast val)"

definition Uintp :: "string \<Rightarrow> 64 word option \<Rightarrow> Field" where
  "Uintp key val =
     (case val of None \<Rightarrow> nilField key
      | Some v \<Rightarrow> MkField key Uint64Type (ucast v) [] VNil)"

definition Uint64p :: "string \<Rightarrow> 64 word option \<Rightarrow> Field" where
  "Uint64p key val =
     (case val of None \<Rightarrow> nilField key
      | Some v \<Rightarrow> MkField key Uint64Type (ucast v) [] VNil)"

definition Uint32 :: "string \<Rightarrow> 32 word \<Rightarrow> Field" where
  "Uint32 key val = MkField key Uint32Type (ucast val) [] VNil"

definition Uint32p :: "string \<Rightarrow> 32 word option \<Rightarrow> Field" where
  "Uint32p key val =
     (case val of None \<Rightarrow> nilField key
      | Some v \<Rightarrow> MkField key Uint32Type (ucast v) [] VNil)"

definition Uint16 :: "string \<Rightarrow> 16 word \<Rightarrow> Field" where
  "Uint16 key val = MkField key Uint16Type (ucast val) [] VNil"

definition Uint16p :: "string \<Rightarrow> 16 word option \<Rightarrow> Field" where
  "Uint16p key val =
     (case val of None \<Rightarrow> nilField key
      | Some v \<Rightarrow> MkField key Uint16Type (ucast v) [] VNil)"

definition Uint8 :: "string \<Rightarrow> 8 word \<Rightarrow> Field" where
  "Uint8 key val = MkField key Uint8Type (ucast val) [] VNil"

definition Uint8p :: "string \<Rightarrow> 8 word option \<Rightarrow> Field" where
  "Uint8p key val =
     (case val of None \<Rightarrow> nilField key
      | Some v \<Rightarrow> MkField key Uint8Type (ucast v) [] VNil)"

definition Uintptr :: "string \<Rightarrow> 64 word \<Rightarrow> Field" where
  "Uintptr key val = MkField key UintptrType (ucast val) [] VNil"

definition Uintptrp :: "string \<Rightarrow> 64 word option \<Rightarrow> Field" where
  "Uintptrp key val =
     (case val of None \<Rightarrow> nilField key
      | Some v \<Rightarrow> MkField key UintptrType (ucast v) [] VNil)"

definition Reflect :: "string \<Rightarrow> goval \<Rightarrow> Field" where
  "Reflect key val = MkField key ReflectType 0 [] val"

definition Namespace :: "string \<Rightarrow> Field" where
  "Namespace key = MkField key NamespaceType 0 [] VNil"

definition Stringer :: "string \<Rightarrow> goval \<Rightarrow> Field" where
  "Stringer key val = MkField key StringerType 0 [] val"

definition Time :: "string \<Rightarrow> time_Time \<Rightarrow> Field" where
  "Time key val =
     (if Before val minTimeInt64 \<or> After val maxTimeInt64
      then MkField key TimeFullType 0 [] (VTime val)
      else MkField key TimeType (UnixNano val) [] (VLocation (location val)))"

definition Timep :: "string \<Rightarrow> time_Time option \<Rightarrow> Field" where
  "Timep key val = (case val of None \<Rightarrow> nilField key | Some v \<Rightarrow> Time key v)"

definition Duration :: "string \<Rightarrow> 64 word \<Rightarrow> Field" where
  "Duration key val = MkField key DurationType (scast val) [] VNil"

definition Durationp :: "string \<Rightarrow> 64 word option \<Rightarrow> Field" where
  "Durationp key val =
     (case val of None \<Rightarrow> nilField key
      | Some v \<Rightarrow> MkField key DurationType (scast v) [] VNil)"

text \<open>
  The parameter of \<^verbatim>\<open>Object\<close> has the interface type \<^verbatim>\<open>zapcore.ObjectMarshaler\<close>; the test
  \<^verbatim>\<open>val == nil\<close> holds of the nil interface only.
\<close>

definition Object :: "string \<Rightarrow> goval \<Rightarrow> Field" where
  "Object key val =
     (if val = VNil then nilField key
      else MkField key ObjectMarshalerType 0 [] val)"

definition Inline :: "goval \<Rightarrow> Field" where
  "Inline val = MkField [] InlineMarshalerType 0 [] val"

definition dictField :: "string \<Rightarrow> Field list \<Rightarrow> Field" where
  "dictField key val = Object key (VdictObject val)"

definition Dict :: "string \<Rightarrow> Field list \<Rightarrow> Field" where
  "Dict key val = dictField key val"

definition DictObject :: "Field list \<Rightarrow> goval" where
  "DictObject val = VdictObject val"

section \<open>Properties of the buffer\<close>

lemma Bytes_go_append: "buf_inv b \<Longrightarrow> Bytes (go_append g b v) = Bytes b @ v"
  by (auto simp: buf_inv_def Bytes_def go_append_def copy_at_def go_make_def Let_def min_def)

lemma inv_go_append: "buf_inv b \<Longrightarrow> buf_inv (go_append g b v)"
  by (auto simp: buf_inv_def go_append_def copy_at_def go_make_def Let_def min_def)

lemma Bytes_AppendString_u: "buf_inv b \<Longrightarrow> Bytes (AppendString_u s b) = Bytes b @ s"
  by (auto simp: buf_inv_def Bytes_def Cap_def AppendString_u_def copy_at_def go_make_def
      Let_def min_def c_size_def)

lemma inv_AppendString_u: "buf_inv b \<Longrightarrow> buf_inv (AppendString_u s b)"
  by (auto simp: buf_inv_def Bytes_def Cap_def AppendString_u_def copy_at_def go_make_def
      Let_def min_def c_size_def)

lemma Bytes_AppendString: "buf_inv b \<Longrightarrow> Bytes (AppendString g s b) = Bytes b @ s"
  by (simp add: AppendString_def Bytes_go_append)

lemma Len_Bytes: "buf_inv b \<Longrightarrow> Len b = length (Bytes b)"
  by (simp add: buf_inv_def Len_def Bytes_def)

lemma do_call_Bytes:
  "buf_inv b \<Longrightarrow> buf_inv (do_call g b c) \<and> Bytes (do_call g b c) = Bytes b @ appended c"
  by (cases c)
    (simp_all add: AppendByte_def AppendBytes_def AppendString_def Bytes_go_append inv_go_append)

lemma do_call_u_Bytes:
  "buf_inv b \<Longrightarrow> buf_inv (do_call_u g b c) \<and> Bytes (do_call_u g b c) = Bytes b @ appended c"
  by (cases c)
    (simp_all add: AppendByte_u_def AppendBytes_u_def Bytes_go_append inv_go_append
      Bytes_AppendString_u inv_AppendString_u)

lemma run_Bytes:
  "buf_inv b \<Longrightarrow>
   buf_inv (run g cs b) \<and> Bytes (run g cs b) = Bytes b @ concat (map appended cs)"
proof (induction cs arbitrary: b)
  case Nil
  then show ?case by (simp add: run_def)
next
  case (Cons c cs)
  from Cons.prems have step: "buf_inv (do_call g b c)" "Bytes (do_call g b c) = Bytes b @ appended c"
    using do_call_Bytes by blast+
  from Cons.IH [OF step(1)] step(2) show ?case by (simp add: run_def)
qed

lemma run_u_Bytes:
  "buf_inv b \<Longrightarrow>
   buf_inv (run_u g cs b) \<and> Bytes (run_u g cs b) = Bytes b @ concat (map appended cs)"
proof (induction cs arbitrary: b)
  case Nil
  then show ?case by (simp add: run_u_def)
next
  case (Cons c cs)
  from Cons.prems have step: "buf_inv (do_call_u g b c)"
    "Bytes (do_call_u g b c) = Bytes b @ appended c"
    using do_call_u_Bytes by blast+
  from Cons.IH [OF step(1)] step(2) show ?case by (simp add: run_u_def)
qed

lemma fresh_Bytes: "Len b = 0 \<Longrightarrow> Bytes b = []"
  by (simp add: Len_def Bytes_def)

subsection \<open>Appends concatenate\<close>

text \<open>
  Claim C5.  Take a buffer that satisfies the slice invariant and is empty, and run any
  finite sequence of \<^verbatim>\<open>AppendByte\<close>, \<^verbatim>\<open>AppendBytes\<close> and \<^verbatim>\<open>AppendString\<close> calls on it, in
  either variant of the buffer and under any growth policy of the builtin append.
  Afterwards \<^verbatim>\<open>Bytes()\<close> is the concatenation, in call order, of everything appended, and
  \<^verbatim>\<open>Len()\<close> is the total number of bytes appended.  Appending the empty byte sequence or
  the empty string to any buffer that satisfies the invariant returns the buffer as it
  was: content, length, array and allocation count.
\<close>

theorem appends_concatenate:
  assumes "buf_inv b" and "Len b = 0" and "buf_inv b'"
  shows "Bytes (run g cs b) = concat (map appended cs)
       \<and> Len (run g cs b) = sum_list (map (length \<circ> appended) cs)
       \<and> Bytes (run_u g cs b) = concat (map appended cs)
       \<and> Len (run_u g cs b) = sum_list (map (length \<circ> appended) cs)
       \<and> AppendBytes g [] b' = b' \<and> AppendString g [] b' = b'
       \<and> AppendBytes_u g [] b' = b' \<and> AppendString_u [] b' = b'"
proof -
  have len: "length (concat (map appended cs)) = sum_list (map (length \<circ> appended) cs)"
    by (simp add: length_concat comp_def)
  have e: "Bytes b = []" using assms(2) by (rule fresh_Bytes)
  from run_Bytes [OF assms(1), of g cs] e
  have r: "buf_inv (run g cs b)" "Bytes (run g cs b) = concat (map appended cs)" by simp_all
  from run_u_Bytes [OF assms(1), of g cs] e
  have u: "buf_inv (run_u g cs b)" "Bytes (run_u g cs b) = concat (map appended cs)" by simp_all
  have n: "AppendBytes_u g [] b' = b'"
    using assms(3) by (simp add: AppendBytes_u_def go_append_def copy_at_def buf_inv_def)
  show ?thesis
    using r u n len by (simp add: Len_Bytes AppendBytes_def AppendString_def AppendString_u_def)
qed

theorem appends_concatenate_witness:
  "buf_inv \<lparr>arr = replicate 4 (CHR 0x00), len = 0, allocs = 0\<rparr>
   \<and> Len \<lparr>arr = replicate 4 (CHR 0x00), len = 0, allocs = 0\<rparr> = 0
   \<and> Bytes (run doubling [CallAppendString ''abc'', CallAppendString '''', CallAppendString ''de'']
        \<lparr>arr = replicate 4 (CHR 0x00), len = 0, allocs = 0\<rparr>) = ''abcde''
   \<and> Len (run_u doubling [CallAppendString ''abc'', CallAppendBytes '''', CallAppendByte (CHR ''d''), CallAppendString ''e'']
        \<lparr>arr = replicate 4 (CHR 0x00), len = 0, allocs = 0\<rparr>) = 5"
proof -
  let ?b = "\<lparr>arr = replicate 4 (CHR 0x00), len = 0, allocs = 0\<rparr>"
  have i: "buf_inv ?b" by (simp add: buf_inv_def)
  have l: "Len ?b = 0" by (simp add: Len_def)
  show ?thesis
    using i l appends_concatenate [OF i l i, of doubling "[CallAppendString ''abc'', CallAppendString '''', CallAppendString ''de'']"]
      appends_concatenate [OF i l i, of doubling "[CallAppendString ''abc'', CallAppendBytes '''', CallAppendByte (CHR ''d''), CallAppendString ''e'']"]
    by simp
qed

subsection \<open>The hand-written \<^verbatim>\<open>AppendString\<close> against the one built on append\<close>

text \<open>
  Claim C4.  On every buffer that satisfies the slice invariant and for every string,
  the \<^verbatim>\<open>AppendString\<close> of \<^verbatim>\<open>part_000\<close> leaves the same content and the same length as the
  \<^verbatim>\<open>AppendString\<close> of \<^verbatim>\<open>buffer.go\<close> (under any growth policy of the builtin append): the old
  content followed by the string.  When the string fits the free capacity, the array is
  the old one with only the cells behind the content overwritten: same capacity, no
  allocation.  When it does not fit, one array is allocated and its capacity is the
  maximum of twice the old capacity, the new length, and 1024.
\<close>

theorem AppendString_u_refines:
  assumes "buf_inv b"
  shows "Bytes (AppendString_u s b) = Bytes (AppendString g s b)
       \<and> Len (AppendString_u s b) = Len (AppendString g s b)
       \<and> Bytes (AppendString_u s b) = Bytes b @ s
       \<and> Len (AppendString_u s b) = Len b + length s
       \<and> buf_inv (AppendString_u s b)
       \<and> (length s \<le> Cap b - Len b \<longrightarrow>
            Cap (AppendString_u s b) = Cap b
          \<and> allocs (AppendString_u s b) = allocs b
          \<and> arr (AppendString_u s b) = take (Len b) (arr b) @ s @ drop (Len b + length s) (arr b))
       \<and> (Cap b - Len b < length s \<longrightarrow>
            Cap (AppendString_u s b) = max (max (2 * Cap b) (Len b + length s)) c_size
          \<and> allocs (AppendString_u s b) = Suc (allocs b))"
proof -
  have c: "Bytes (AppendString_u s b) = Bytes b @ s"
    using assms by (rule Bytes_AppendString_u)
  have p: "Bytes (AppendString g s b) = Bytes b @ s"
    using assms by (rule Bytes_AppendString)
  have iu: "buf_inv (AppendString_u s b)" using assms by (rule inv_AppendString_u)
  have ip: "buf_inv (AppendString g s b)"
    using assms by (simp add: AppendString_def inv_go_append)
  have lu: "Len (AppendString_u s b) = Len b + length s"
    using c assms iu by (simp add: Len_Bytes)
  have lp: "Len (AppendString g s b) = Len b + length s"
    using p assms ip by (simp add: Len_Bytes)
  have fast: "length s \<le> Cap b - Len b \<Longrightarrow>
      Cap (AppendString_u s b) = Cap b
    \<and> allocs (AppendString_u s b) = allocs b
    \<and> arr (AppendString_u s b) = take (Len b) (arr b) @ s @ drop (Len b + length s) (arr b)"
    using assms
    by (auto simp: AppendString_u_def Cap_def Len_def buf_inv_def copy_at_def Let_def)
  have slow: "Cap b - Len b < length s \<Longrightarrow>
      Cap (AppendString_u s b) = max (max (2 * Cap b) (Len b + length s)) c_size
    \<and> allocs (AppendString_u s b) = Suc (allocs b)"
    using assms
    by (auto simp: AppendString_u_def Cap_def Len_def Bytes_def buf_inv_def copy_at_def
        go_make_def Let_def c_size_def)
  show ?thesis using c p iu lu lp fast slow by simp
qed

theorem AppendString_u_refines_witness:
  "buf_inv \<lparr>arr = ''ab__'', len = 2, allocs = 0\<rparr>
   \<and> Bytes (AppendString_u ''cd'' \<lparr>arr = ''ab__'', len = 2, allocs = 0\<rparr>) = ''abcd''
   \<and> Cap (AppendString_u ''cd'' \<lparr>arr = ''ab__'', len = 2, allocs = 0\<rparr>) = 4
   \<and> allocs (AppendString_u ''cd'' \<lparr>arr = ''ab__'', len = 2, allocs = 0\<rparr>) = 0
   \<and> Bytes (AppendString_u ''cde'' \<lparr>arr = ''ab__'', len = 2, allocs = 0\<rparr>) = ''abcde''
   \<and> Cap (AppendString_u ''cde'' \<lparr>arr = ''ab__'', len = 2, allocs = 0\<rparr>) = 1024
   \<and> allocs (AppendString_u ''cde'' \<lparr>arr = ''ab__'', len = 2, allocs = 0\<rparr>) = 1"
proof -
  let ?b = "\<lparr>arr = ''ab__'', len = 2, allocs = 0\<rparr>"
  have i: "buf_inv ?b" by (simp add: buf_inv_def)
  have c: "Cap ?b = 4" by (simp add: Cap_def)
  have l: "Len ?b = 2" by (simp add: Len_def)
  have y: "Bytes ?b = ''ab''" by (simp add: Bytes_def)
  show ?thesis
    using i AppendString_u_refines [OF i, of "''cd''" doubling, THEN conjunct2, THEN conjunct2]
      AppendString_u_refines [OF i, of "''cde''" doubling, THEN conjunct2, THEN conjunct2]
      c l y by (simp add: c_size_def)
qed

subsection \<open>Returning a buffer to the pool\<close>

text \<open>
  Claim C3 says of every buffer that \<^verbatim>\<open>Free\<close> clears the length.  The \<^verbatim>\<open>Free\<close> of
  \<^verbatim>\<open>part_000\<close> hands the buffer to the pool as it is: a buffer of length 1 arrives there
  with length 1.
\<close>

theorem Free_u_keeps_length_counterexample:
  "Len (fst (Free_u \<lparr>arr = ''a'', len = 1, allocs = 0\<rparr> [])) \<noteq> 0"
  by (simp add: Free_u_def Len_def)

text \<open>
  Claim C3, amended.  The \<^verbatim>\<open>Free\<close> of \<^verbatim>\<open>buffer.go\<close> hands the buffer to its pool with
  length 0.  When the capacity exceeded 4096 (four times the default size) the array is
  a newly allocated one of 1024 zero bytes; otherwise the array, and so the capacity, is
  the one the buffer had, and nothing is allocated.  The \<^verbatim>\<open>Free\<close> of \<^verbatim>\<open>part_000\<close> hands the
  buffer to its pool unchanged.
\<close>

theorem Free_trims_or_resets:
  "(case Free b pool of (b', pool') \<Rightarrow>
      pool' = put b' pool \<and> Len b' = 0
    \<and> (4096 < Cap b \<longrightarrow>
         Cap b' = 1024 \<and> arr b' = replicate 1024 (CHR 0x00) \<and> allocs b' = Suc (allocs b))
    \<and> (Cap b \<le> 4096 \<longrightarrow>
         Cap b' = Cap b \<and> arr b' = arr b \<and> allocs b' = allocs b))
   \<and> Free_u b pool = (b, put b pool)"
  by (simp add: Free_def Free_u_def Let_def Reset_def Len_def Cap_def go_make_def
      c_size_def c_maxExcessCap_def)

theorem Free_trims_or_resets_witness:
  "(4096::nat) < Cap \<lparr>arr = replicate 5000 (CHR ''x''), len = 3, allocs = 0\<rparr>
   \<and> Cap (fst (Free \<lparr>arr = replicate 5000 (CHR ''x''), len = 3, allocs = 0\<rparr> [])) = 1024
   \<and> Len (fst (Free \<lparr>arr = replicate 5000 (CHR ''x''), len = 3, allocs = 0\<rparr> [])) = 0
   \<and> Cap \<lparr>arr = ''abcd'', len = 3, allocs = 0\<rparr> \<le> 4096
   \<and> Cap (fst (Free \<lparr>arr = ''abcd'', len = 3, allocs = 0\<rparr> [])) = 4
   \<and> Len (fst (Free \<lparr>arr = ''abcd'', len = 3, allocs = 0\<rparr> [])) = 0
   \<and> Free \<lparr>arr = ''abcd'', len = 3, allocs = 0\<rparr> []
       = (\<lparr>arr = ''abcd'', len = 0, allocs = 0\<rparr>, [\<lparr>arr = ''abcd'', len = 0, allocs = 0\<rparr>])"
proof -
  let ?big = "\<lparr>arr = replicate 5000 (CHR ''x''), len = 3, allocs = 0\<rparr>"
  let ?small = "\<lparr>arr = ''abcd'', len = 3, allocs = 0\<rparr>"
  have b: "(4096::nat) < Cap ?big" by (simp add: Cap_def)
  have s: "Cap ?small \<le> 4096" "Cap ?small = 4" by (simp_all add: Cap_def)
  have f: "Free ?small [] = (\<lparr>arr = ''abcd'', len = 0, allocs = 0\<rparr>, [\<lparr>arr = ''abcd'', len = 0, allocs = 0\<rparr>])"
    by (simp add: Free_def Cap_def Len_def Reset_def put_def Let_def c_size_def c_maxExcessCap_def)
  from Free_trims_or_resets [where b = ?big and pool = "[]"] b
  have 1: "Cap (fst (Free ?big [])) = 1024 \<and> Len (fst (Free ?big [])) = 0"
    by (simp add: case_prod_beta)
  from Free_trims_or_resets [where b = ?small and pool = "[]"] s
  have 2: "Cap (fst (Free ?small [])) = 4 \<and> Len (fst (Free ?small [])) = 0"
    by (simp add: case_prod_beta)
  show ?thesis using b s f 1 2 by simp
qed

end
